theory Spec2Isabelle
  imports Main "HOL-Library.Sublist"
begin

section \<open>The chunker (\<^verbatim>\<open>chunk_text\<close>, note_generator.py lines 61-82)\<close>

text \<open>
  Python strings are modelled as \<^typ>\<open>string\<close> (lists of characters), Python integers
  as \<^typ>\<open>int\<close>, and \<^verbatim>\<open>len\<close> as \<^term>\<open>\<lambda>s. int (length s)\<close>.

  \<^verbatim>\<open>text.split(".")\<close> with a one-character separator cuts the text at every occurrence
  of the separator and always returns at least one piece: the empty text gives the
  one-element list holding the empty string.
\<close>

fun str_split :: "char \<Rightarrow> string \<Rightarrow> string list" where
  "str_split sep [] = [[]]"
| "str_split sep (c # cs) =
     (if c = sep then [] # str_split sep cs
      else (case str_split sep cs of
              [] \<Rightarrow> [[c]]
            | s # ss \<Rightarrow> (c # s) # ss))"

text \<open>
  The body of the \<^verbatim>\<open>for sentence in text.split(".")\<close> loop, with the two variables
  \<^verbatim>\<open>chunks\<close> and \<^verbatim>\<open>current_chunk\<close> it updates passed along.
\<close>

fun chunk_loop :: "int \<Rightarrow> string list \<Rightarrow> string list \<Rightarrow> string \<Rightarrow> string list \<times> string" where
  "chunk_loop max_chunk_size [] chunks current_chunk = (chunks, current_chunk)"
| "chunk_loop max_chunk_size (sentence # rest) chunks current_chunk =
     (if int (length current_chunk) + int (length sentence) < max_chunk_size
      then chunk_loop max_chunk_size rest chunks (current_chunk @ sentence @ ''.'')
      else chunk_loop max_chunk_size rest (chunks @ [current_chunk]) (sentence @ ''.''))"

definition chunk_text :: "string \<Rightarrow> int \<Rightarrow> string list" where
  "chunk_text tx max_chunk_size =
     (case chunk_loop max_chunk_size (str_split (CHR ''.'') tx) [] [] of
        (chunks, current_chunk) \<Rightarrow>
          if current_chunk \<noteq> [] then chunks @ [current_chunk] else chunks)"

text \<open>The default of the second parameter: \<^verbatim>\<open>max_chunk_size: int = 8000\<close>.\<close>

definition default_max_chunk_size :: int where
  "default_max_chunk_size = 8000"

section \<open>Preprocessing (\<^verbatim>\<open>preprocess_transcript\<close>, lines 45-59)\<close>

text \<open>
  \<^verbatim>\<open>re.sub(r'([a-z])([A-Z])', r'\1. \2', text)\<close>: between an ASCII lower-case letter and
  an ASCII upper-case letter that follows it, a dot and a space are inserted. A match ends
  in an upper-case letter, which cannot start the next match, so scanning on from the
  second letter finds the same non-overlapping matches as the regular expression engine.
\<close>

definition ascii_lower :: "char \<Rightarrow> bool" where
  "ascii_lower c = (97 \<le> (of_char c :: nat) \<and> (of_char c :: nat) \<le> 122)"

definition ascii_upper :: "char \<Rightarrow> bool" where
  "ascii_upper c = (65 \<le> (of_char c :: nat) \<and> (of_char c :: nat) \<le> 90)"

fun preprocess_transcript :: "string \<Rightarrow> string" where
  "preprocess_transcript (a # b # cs) =
     (if ascii_lower a \<and> ascii_upper b
      then a # CHR ''.'' # CHR '' '' # preprocess_transcript (b # cs)
      else a # preprocess_transcript (b # cs))"
| "preprocess_transcript cs = cs"

section \<open>The prompts (lines 84-109)\<close>

definition PROMPT_START :: string where
  "PROMPT_START =
     ''\<newline>'' @
     ''Act as an expert academic note-taker and content summarizer. Below is '' @
     ''the first part of a long lecture transcript. Your task is to analyze '' @
     ''this text and generate a comprehensive, structured, and detailed set '' @
     ''of notes. The notes must be **written exclusively in simple '' @
     ''English**, regardless of the input language.\<newline>'' @
     ''\<newline>'' @
     ''Crucial Instructions:\<newline>'' @
     ''* Analyze the Provided Content: Carefully read the entire text. '' @
     ''Identify key themes, definitions, examples, and rules.\<newline>'' @
     ''* Knowledge Augmentation: Supplement the notes with your own '' @
     ''knowledge to enrich the content where the transcript is brief.\<newline>'' @
     ''* Note Structure: Organize the notes with clear headings, bolded key '' @
     ''terms, bulleted/numbered lists, and proper formatting for examples '' @
     ''and formulas.\<newline>'' @
     ''* Final Output: Provide the detailed notes for this section. Do not '' @
     ''provide a final summary or conclusion.\<newline>''"

text \<open>
  \<^verbatim>\<open>PROMPT_CONTINUE.format(existing_notes=..., new_transcript_chunk=...)\<close> puts the two
  arguments, unchanged, in the place of the two fields of the template: the template is
  cut at the fields into a head, a middle and a tail.
\<close>

definition PROMPT_CONTINUE_head :: string where
  "PROMPT_CONTINUE_head =
     ''\<newline>'' @
     ''Act as an expert academic note-taker and content summarizer. Below is '' @
     ''another part of a long lecture transcript. Your task is to analyze '' @
     ''this new content and seamlessly incorporate it into the existing '' @
     ''notes, ensuring context is maintained and the final document is '' @
     ''cohesive. The notes must be **written exclusively in simple '' @
     ''English**, regardless of the input language.\<newline>'' @
     ''\<newline>'' @
     ''Crucial Instructions:\<newline>'' @
     ''* Analyze and Integrate: Carefully read the new text and integrate '' @
     ''the information into the notes you have already created. Add new '' @
     ''sections, sub-points, definitions, and examples as needed.\<newline>'' @
     ''* Maintain Context: Do not treat this as a new request. Build '' @
     ''directly upon the notes from the previous transcript part, which are '' @
     ''provided below.\<newline>'' @
     ''* Knowledge Augmentation: Continue to use your own knowledge to '' @
     ''supplement and enrich the notes where necessary.\<newline>'' @
     ''* Final Output: Provide the updated, more comprehensive set of notes. '' @
     ''Do not provide a final summary or conclusion until all parts are '' @
     ''provided.\<newline>'' @
     ''\<newline>'' @
     ''---\<newline>'' @
     ''Notes generated so far:\<newline>''"

definition PROMPT_CONTINUE_mid :: string where
  "PROMPT_CONTINUE_mid =
     ''\<newline>'' @
     ''---\<newline>'' @
     ''New Transcript Part:\<newline>''"

definition PROMPT_CONTINUE_tail :: string where
  "PROMPT_CONTINUE_tail = ''\<newline>''"

definition PROMPT_CONTINUE_format :: "string \<Rightarrow> string \<Rightarrow> string" where
  "PROMPT_CONTINUE_format existing_notes new_transcript_chunk =
     PROMPT_CONTINUE_head @ existing_notes @ PROMPT_CONTINUE_mid @ new_transcript_chunk @
     PROMPT_CONTINUE_tail"

section \<open>The data of a run\<close>

text \<open>
  The dictionary written to and read from \<^verbatim>\<open>progress.json\<close>. A key of the dictionary
  may be missing in a file that was not written by this program, so each field is
  optional; a lookup of a missing key raises \<^verbatim>\<open>KeyError\<close>. The dictionary is empty
  (and falsy) when all four keys are missing.
\<close>

record progress =
  p_video_url :: "string option"
  p_transcript_chunks :: "string list option"
  p_notes :: "string option"
  p_chunk_index :: "int option"

definition checkpoint :: "string \<Rightarrow> string list \<Rightarrow> string \<Rightarrow> int \<Rightarrow> progress" where
  "checkpoint video_url transcript_chunks notes chunk_index =
     \<lparr>p_video_url = Some video_url, p_transcript_chunks = Some transcript_chunks,
      p_notes = Some notes, p_chunk_index = Some chunk_index\<rparr>"

definition dict_nonempty :: "progress \<Rightarrow> bool" where
  "dict_nonempty p =
     (p_video_url p \<noteq> None \<or> p_transcript_chunks p \<noteq> None \<or> p_notes p \<noteq> None \<or>
      p_chunk_index p \<noteq> None)"

text \<open>
  The two files of the program. \<^verbatim>\<open>progress.json\<close> is absent, or it is one of: a file
  that cannot be opened or read (a directory, a file without read permission); bytes that
  are not text in the encoding of \<^verbatim>\<open>open\<close>; text that is not JSON; JSON for a value that
  is not a dictionary (a list, a string, a number, \<^verbatim>\<open>true\<close>, \<^verbatim>\<open>false\<close>, \<^verbatim>\<open>null\<close>); JSON for
  a dictionary. A dictionary is modelled with values of the types this program writes (a
  string, a list of strings, a string and an integer), each key present or missing; what
  a run does with a value of another type under one of the four keys is decided inside
  the libraries the program calls (the progress bar, the formatting of the prompt) and is
  not modelled. \<^verbatim>\<open>json.dump\<close> followed by \<^verbatim>\<open>json.load\<close> gives back the strings, the list
  and the integer that were written, and writing a file is taken to succeed.
\<close>

datatype json_file = Unreadable | Undecodable | Unparseable | JsonOther | JsonDict progress

record files =
  progress_json :: "json_file option"
  academic_notes :: "string option"

text \<open>
  What a run does to the outside, in order: a call of \<^verbatim>\<open>model.generate_content\<close> (with
  the value of \<^verbatim>\<open>current_chunk_index\<close> it is called for, the prompt, and what
  \<^verbatim>\<open>progress.json\<close> holds at the moment of the call), and a write of \<^verbatim>\<open>progress.json\<close>
  (with the dictionary written).
\<close>

datatype event = GenerateContent int string "json_file option" | SaveProgress progress

text \<open>
  Where \<^verbatim>\<open>generate_notes\<close> returns: after the loop (line 169), in the handler inside
  the loop (line 167), or in the outer handler (line 172).
\<close>

datatype ending = Completed | PartiallyFailed string | Errored string

record run =
  returned :: string
  run_end :: ending
  run_files :: files
  run_events :: "event list"

text \<open>
  The collaborators of the run: the environment variable, the transcript service behind
  \<^verbatim>\<open>get_transcript\<close> (lines 16-43), and the generative model behind
  \<^verbatim>\<open>model.generate_content(prompt).text\<close>. Each of the two services either raises (the
  left value is the text of the exception) or returns a text; the model is a function of
  the prompt, the deterministic stub of the spec's testable properties.
\<close>

record env =
  GEMINI_API_KEY :: "string option"
  get_transcript :: "string \<Rightarrow> string + string"
  generate_content :: "string \<Rightarrow> string + string"

section \<open>The pipeline (\<^verbatim>\<open>generate_notes\<close>, lines 111-172)\<close>

definition get_gemini_api_key :: "env \<Rightarrow> string + string" where
  "get_gemini_api_key e =
     (case GEMINI_API_KEY e of
        None \<Rightarrow> Inl ''GEMINI_API_KEY environment variable not set.''
      | Some api_key \<Rightarrow>
          if api_key = [] then Inl ''GEMINI_API_KEY environment variable not set.''
          else Inr api_key)"

text \<open>The text of a \<^verbatim>\<open>KeyError\<close>: the key in single quotes.\<close>

definition key_error :: "string \<Rightarrow> string" where
  "key_error k = [CHR 0x27] @ k @ [CHR 0x27]"

text \<open>Lines 128-130: the three lookups in \<^verbatim>\<open>resume_data\<close>, in this order.\<close>

definition resume_state :: "progress \<Rightarrow> string + (string list \<times> string \<times> int)" where
  "resume_state resume_data =
     (case p_transcript_chunks resume_data of
        None \<Rightarrow> Inl (key_error ''transcript_chunks'')
      | Some transcript_chunks \<Rightarrow>
          (case p_notes resume_data of
             None \<Rightarrow> Inl (key_error ''notes'')
           | Some notes \<Rightarrow>
               (case p_chunk_index resume_data of
                  None \<Rightarrow> Inl (key_error ''chunk_index'')
                | Some start_chunk \<Rightarrow> Inr (transcript_chunks, notes, start_chunk))))"

text \<open>Lines 132-139: fetch, preprocess and chunk the transcript.\<close>

definition fresh_state :: "env \<Rightarrow> string \<Rightarrow> string + (string list \<times> string \<times> int)" where
  "fresh_state e video_url =
     (case get_transcript e video_url of
        Inl msg \<Rightarrow> Inl msg
      | Inr transcript \<Rightarrow>
          Inr (chunk_text (preprocess_transcript transcript) default_max_chunk_size, [], 0))"

text \<open>Line 127: \<^verbatim>\<open>if resume_data:\<close> is false for \<^verbatim>\<open>None\<close> and for the empty dictionary.\<close>

definition initial_state ::
  "env \<Rightarrow> string \<Rightarrow> progress option \<Rightarrow> string + (string list \<times> string \<times> int)" where
  "initial_state e video_url resume_data =
     (case resume_data of
        None \<Rightarrow> fresh_state e video_url
      | Some p \<Rightarrow> if dict_nonempty p then resume_state p else fresh_state e video_url)"

text \<open>
  \<^verbatim>\<open>transcript_chunks[start_chunk:]\<close>: a negative start counts from the end, and a start
  beyond either end is clipped.
\<close>

definition slice_from :: "'a list \<Rightarrow> int \<Rightarrow> 'a list" where
  "slice_from xs start =
     (if start < 0 then drop (nat (int (length xs) + start)) xs else drop (nat start) xs)"

text \<open>Lines 145-148: the prompt of the step for the chunk with index \<open>current_chunk_index\<close>.\<close>

definition prompt_for :: "int \<Rightarrow> string \<Rightarrow> string \<Rightarrow> string" where
  "prompt_for current_chunk_index notes chunk =
     (if current_chunk_index = 0 then PROMPT_START @ chunk
      else PROMPT_CONTINUE_format notes chunk)"

text \<open>
  The loop of lines 142-167 over the chunks that remain. A step that raises returns the
  notes as they are (line 167) and writes nothing; a step that succeeds replaces the notes
  by the response and writes the dictionary of lines 155-160 to \<^verbatim>\<open>progress.json\<close>.
\<close>

fun stepping ::
  "env \<Rightarrow> string \<Rightarrow> string list \<Rightarrow> int \<Rightarrow> string list \<Rightarrow> string \<Rightarrow> files \<Rightarrow> event list \<Rightarrow> run" where
  "stepping e video_url transcript_chunks current_chunk_index [] notes fs evs =
     \<lparr>returned = notes, run_end = Completed, run_files = fs, run_events = evs\<rparr>"
| "stepping e video_url transcript_chunks current_chunk_index (chunk # rest) notes fs evs =
     (case generate_content e (prompt_for current_chunk_index notes chunk) of
        Inl msg \<Rightarrow>
          \<lparr>returned = notes, run_end = PartiallyFailed msg, run_files = fs,
           run_events = evs @ [GenerateContent current_chunk_index
                                 (prompt_for current_chunk_index notes chunk)
                                 (progress_json fs)]\<rparr>
      | Inr response \<Rightarrow>
          stepping e video_url transcript_chunks (current_chunk_index + 1) rest response
            (fs\<lparr>progress_json :=
                  Some (JsonDict (checkpoint video_url transcript_chunks response
                                    (current_chunk_index + 1)))\<rparr>)
            (evs @ [GenerateContent current_chunk_index
                      (prompt_for current_chunk_index notes chunk) (progress_json fs),
                    SaveProgress (checkpoint video_url transcript_chunks response
                                    (current_chunk_index + 1))]))"

definition outer_error :: "string \<Rightarrow> files \<Rightarrow> run" where
  "outer_error msg fs =
     \<lparr>returned = ''An error occurred: '' @ msg, run_end = Errored msg, run_files = fs,
      run_events = []\<rparr>"

definition generate_notes :: "env \<Rightarrow> string \<Rightarrow> progress option \<Rightarrow> files \<Rightarrow> run" where
  "generate_notes e video_url resume_data fs =
     (case get_gemini_api_key e of
        Inl msg \<Rightarrow> outer_error msg fs
      | Inr api_key \<Rightarrow>
          (case initial_state e video_url resume_data of
             Inl msg \<Rightarrow> outer_error msg fs
           | Inr (transcript_chunks, notes, start_chunk) \<Rightarrow>
               stepping e video_url transcript_chunks start_chunk
                 (slice_from transcript_chunks start_chunk) notes fs []))"

section \<open>The command line (\<^verbatim>\<open>main\<close>, lines 175-221)\<close>

text \<open>
  \<^verbatim>\<open>"An error occurred" not in notes\<close>: the test for a substring.
\<close>

fun str_contains :: "string \<Rightarrow> string \<Rightarrow> bool" where
  "str_contains needle [] = (needle = [])"
| "str_contains needle (c # cs) = (prefix needle (c # cs) \<or> str_contains needle cs)"

text \<open>
  \<^verbatim>\<open>input(...).lower()\<close> is compared with \<^verbatim>\<open>'r'\<close> and \<^verbatim>\<open>'s'\<close> only, so only the case of
  ASCII letters matters.
\<close>

definition lower :: "string \<Rightarrow> string" where
  "lower s = map (\<lambda>c. if ascii_upper c then char_of (of_char c + (32 :: nat)) else c) s"

text \<open>
  The lines typed by the user are a list; \<^verbatim>\<open>input\<close> takes the first, and raises
  \<^verbatim>\<open>EOFError\<close> on the empty list. The loop of lines 190-194 reads until a line is
  \<^verbatim>\<open>r\<close> or \<^verbatim>\<open>s\<close>.
\<close>

fun read_choice :: "string list \<Rightarrow> (string \<times> string list) option" where
  "read_choice [] = None"
| "read_choice (l # ls) =
     (if lower l = ''r'' \<or> lower l = ''s'' then Some (lower l, ls) else read_choice ls)"

text \<open>\<^verbatim>\<open>not video_url\<close>: the argument is absent (\<^verbatim>\<open>None\<close>) or the empty string.\<close>

definition no_url :: "string option \<Rightarrow> bool" where
  "no_url video_url = (video_url = None \<or> video_url = Some [])"

text \<open>
  An exception that \<^verbatim>\<open>main\<close> does not catch ends the program; the files are as they were
  when it was raised.
\<close>

datatype uncaught =
  OSError | UnicodeDecodeError | JSONDecodeError | TypeError | KeyError string | EOFError

text \<open>
  Lines 186-187: \<^verbatim>\<open>open\<close> and \<^verbatim>\<open>json.load\<close>. The value loaded is a dictionary or a value
  of another type.
\<close>

datatype json_value = NotADict | Dict progress

fun json_load :: "json_file \<Rightarrow> uncaught + json_value" where
  "json_load Unreadable = Inl OSError"
| "json_load Undecodable = Inl UnicodeDecodeError"
| "json_load Unparseable = Inl JSONDecodeError"
| "json_load JsonOther = Inr NotADict"
| "json_load (JsonDict p) = Inr (Dict p)"

text \<open>
  \<^verbatim>\<open>progress['video_url']\<close>: a value that is not a dictionary raises \<^verbatim>\<open>TypeError\<close>, a
  dictionary without the key raises \<^verbatim>\<open>KeyError\<close>.
\<close>

fun subscript_video_url :: "json_value \<Rightarrow> uncaught + (progress \<times> string)" where
  "subscript_video_url NotADict = Inl TypeError"
| "subscript_video_url (Dict p) =
     (case p_video_url p of
        None \<Rightarrow> Inl (KeyError ''video_url'')
      | Some u \<Rightarrow> Inr (p, u))"

text \<open>Lines 208-209.\<close>

definition ask_url ::
  "string option \<Rightarrow> progress option \<Rightarrow> files \<Rightarrow> string list \<Rightarrow>
   (uncaught \<times> files) + (string \<times> progress option \<times> files)" where
  "ask_url video_url resume_data fs stdin =
     (case (if no_url video_url then None else video_url) of
        None \<Rightarrow>
          (case stdin of
             [] \<Rightarrow> Inl (EOFError, fs)
           | l # ls \<Rightarrow> Inr (l, resume_data, fs))
      | Some u \<Rightarrow> Inr (u, resume_data, fs))"

text \<open>Lines 190-202: the question, and what each answer does.\<close>

definition resume_or_restart ::
  "string option \<Rightarrow> json_value \<Rightarrow> files \<Rightarrow> string list \<Rightarrow>
   (uncaught \<times> files) + (string \<times> progress option \<times> files)" where
  "resume_or_restart video_url prog fs stdin =
     (case read_choice stdin of
        None \<Rightarrow> Inl (EOFError, fs)
      | Some (choice, ls) \<Rightarrow>
          if choice = ''r'' then
            (case subscript_video_url prog of
               Inl exn \<Rightarrow> Inl (exn, fs)
             | Inr (p, u) \<Rightarrow> ask_url (Some u) (Some p) fs ls)
          else ask_url video_url None (fs\<lparr>progress_json := None\<rparr>) ls)"

text \<open>
  Lines 182-209: everything before the call of \<^verbatim>\<open>generate_notes\<close>. The result is the
  URL, the resume data and the files the call is made with.
\<close>

definition startup ::
  "string option \<Rightarrow> string list \<Rightarrow> files \<Rightarrow>
   (uncaught \<times> files) + (string \<times> progress option \<times> files)" where
  "startup video_url stdin fs =
     (case progress_json fs of
        None \<Rightarrow> ask_url video_url None fs stdin
      | Some file \<Rightarrow>
          (case json_load file of
             Inl exn \<Rightarrow> Inl (exn, fs)
           | Inr prog \<Rightarrow>
               if no_url video_url then resume_or_restart video_url prog fs stdin
               else
                 (case subscript_video_url prog of
                    Inl exn \<Rightarrow> Inl (exn, fs)
                  | Inr (p, u) \<Rightarrow>
                      if video_url = Some u then resume_or_restart video_url prog fs stdin
                      else ask_url video_url None (fs\<lparr>progress_json := None\<rparr>) stdin)))"

datatype outcome = Crashed uncaught | NotesSaved | ErrorPrinted

record main_result =
  outcome :: outcome
  main_files :: files
  main_run :: "run option"

text \<open>Lines 213-221: what \<^verbatim>\<open>main\<close> does with the text that \<^verbatim>\<open>generate_notes\<close> returned.\<close>

definition finish :: "run \<Rightarrow> main_result" where
  "finish r =
     (if \<not> str_contains ''An error occurred'' (returned r) then
        \<lparr>outcome = NotesSaved,
         main_files = (run_files r)\<lparr>academic_notes := Some (returned r), progress_json := None\<rparr>,
         main_run = Some r\<rparr>
      else \<lparr>outcome = ErrorPrinted, main_files = run_files r, main_run = Some r\<rparr>)"

definition main :: "string option \<Rightarrow> string list \<Rightarrow> env \<Rightarrow> files \<Rightarrow> main_result" where
  "main video_url stdin e fs =
     (case startup video_url stdin fs of
        Inl (exn, fs') \<Rightarrow> \<lparr>outcome = Crashed exn, main_files = fs', main_run = None\<rparr>
      | Inr (url, resume_data, fs') \<Rightarrow> finish (generate_notes e url resume_data fs'))"

section \<open>The documents of a job, as the spec describes them\<close>

text \<open>
  The Document produced by processing exactly the chunks \<open>[0, n)\<close> in order: the empty
  document for \<open>n = 0\<close>, and the output of the Generation Step for chunk \<open>n\<close> on the
  document of the chunks before it. There is no such document when one of these steps
  fails, or when the sequence has fewer than \<open>n\<close> chunks.
\<close>

fun doc_after :: "env \<Rightarrow> string list \<Rightarrow> nat \<Rightarrow> string option" where
  "doc_after e chunks 0 = Some []"
| "doc_after e chunks (Suc n) =
     (case doc_after e chunks n of
        None \<Rightarrow> None
      | Some d \<Rightarrow>
          if n < length chunks then
            (case generate_content e (prompt_for (int n) d (chunks ! n)) of
               Inl msg \<Rightarrow> None
             | Inr d' \<Rightarrow> Some d')
          else None)"

text \<open>
  The checkpoint invariant of the spec's data model: the index is between 0 and the number
  of chunks, and the notes are the document of the chunks before the index.
\<close>

definition checkpoint_ok :: "env \<Rightarrow> progress \<Rightarrow> bool" where
  "checkpoint_ok e p =
     (case p_transcript_chunks p of
        None \<Rightarrow> False
      | Some chunks \<Rightarrow>
          (case p_notes p of
             None \<Rightarrow> False
           | Some d \<Rightarrow>
               (case p_chunk_index p of
                  None \<Rightarrow> False
                | Some k \<Rightarrow>
                    0 \<le> k \<and> k \<le> int (length chunks) \<and> doc_after e chunks (nat k) = Some d)))"

text \<open>
  The Generation Step for the chunk at position \<open>i\<close> of the sequence, as an event: the
  call is labelled with the index \<open>i\<close>, its prompt is the prompt for that index built
  from the chunk at position \<open>i\<close> and the notes so far, and it is made while
  \<^verbatim>\<open>progress.json\<close> holds \<open>store\<close>.
\<close>

definition step_call ::
  "string list \<Rightarrow> nat \<Rightarrow> string \<Rightarrow> json_file option \<Rightarrow> int \<Rightarrow> string \<Rightarrow> json_file option \<Rightarrow> bool" where
  "step_call chunks i notes store j p s =
     (i < length chunks \<and> j = int i \<and> p = prompt_for (int i) notes (chunks ! i) \<and> s = store)"

text \<open>
  The order of the events of a run that is at position \<open>i\<close> with the notes \<open>notes\<close> while
  \<^verbatim>\<open>progress.json\<close> holds \<open>store\<close>: the step for chunk \<open>i\<close>; then the write of the
  checkpoint with the sequence, the new notes and the next index \<open>i + 1\<close>; then the
  events of a run that is at position \<open>i + 1\<close> with the new notes while \<^verbatim>\<open>progress.json\<close>
  holds that checkpoint. So the step for chunk \<open>i + 1\<close> is called only when the
  checkpoint of step \<open>i\<close> is in the file. Only the last call of a run may be without
  its write.
\<close>

fun ordered_from ::
  "string \<Rightarrow> string list \<Rightarrow> nat \<Rightarrow> string \<Rightarrow> json_file option \<Rightarrow> event list \<Rightarrow> bool" where
  "ordered_from url chunks i notes store [] = True"
| "ordered_from url chunks i notes store [GenerateContent j p s] =
     step_call chunks i notes store j p s"
| "ordered_from url chunks i notes store (GenerateContent j p s # SaveProgress c # evs) =
     (step_call chunks i notes store j p s \<and>
      (case p_notes c of
         None \<Rightarrow> False
       | Some response \<Rightarrow>
           c = checkpoint url chunks response (int i + 1) \<and>
           ordered_from url chunks (Suc i) response (Some (JsonDict c)) evs))"
| "ordered_from url chunks i notes store evs = False"

fun gen_indices :: "event list \<Rightarrow> int list" where
  "gen_indices [] = []"
| "gen_indices (GenerateContent j p s # evs) = j # gen_indices evs"
| "gen_indices (SaveProgress c # evs) = gen_indices evs"

fun saved :: "event list \<Rightarrow> progress list" where
  "saved [] = []"
| "saved (GenerateContent j p s # evs) = saved evs"
| "saved (SaveProgress c # evs) = c # saved evs"

section \<open>Example collaborators and inputs\<close>

text \<open>
  Three stubs of the generative model. The first always answers, with a text that depends
  on the length of the prompt (and so on the notes so far and on the chunk); the second
  answers in the same way but raises for the prompts whose length leaves the remainder 2
  modulo 4; the third always answers with a text that holds the error marker.
\<close>

definition stub_ok :: "string \<Rightarrow> string + string" where
  "stub_ok p = Inr (replicate (length p mod 4 + 1) (CHR ''n''))"

definition stub_quota :: "string \<Rightarrow> string + string" where
  "stub_quota p = (if length p mod 4 = 2 then Inl ''quota exceeded'' else stub_ok p)"

definition stub_marker :: "string \<Rightarrow> string + string" where
  "stub_marker p = Inr ''An error occurred''"

definition example_env :: "(string \<Rightarrow> string + string) \<Rightarrow> env" where
  "example_env g =
     \<lparr>GEMINI_API_KEY = Some ''key'', get_transcript = (\<lambda>u. Inr ''aB. c''),
      generate_content = g\<rparr>"

definition five_chunks :: "string list" where
  "five_chunks = [''ab.'', ''cd.'', ''ef.'', ''gh.'', ''ij.'']"

definition no_files :: files where
  "no_files = \<lparr>progress_json = None, academic_notes = None\<rparr>"

text \<open>
  The files after Scenario C of the spec (the checkpoint with next index 2), the files
  after the first step of that job (the checkpoint with next index 1), a
  \<^verbatim>\<open>progress.json\<close> that is not JSON, and the dictionary of Scenario C without one of its
  keys.
\<close>

definition scenario_C_files :: files where
  "scenario_C_files =
     \<lparr>progress_json = Some (JsonDict (checkpoint ''u'' five_chunks ''nnnn'' 2)),
      academic_notes = None\<rparr>"

definition checkpoint_1_files :: files where
  "checkpoint_1_files =
     \<lparr>progress_json = Some (JsonDict (checkpoint ''u'' five_chunks ''n'' 1)),
      academic_notes = None\<rparr>"





section \<open>Properties of the chunker\<close>

lemma str_split_not_Nil: "str_split sep tx \<noteq> []"
  by (induction tx) (auto split: list.splits)

lemma str_split_join: "concat (map (\<lambda>s. s @ [sep]) (str_split sep tx)) = tx @ [sep]"
proof (induction tx)
  case Nil
  show ?case by simp
next
  case (Cons c cs)
  show ?case
  proof (cases "c = sep")
    case True
    with Cons show ?thesis by simp
  next
    case False
    obtain s ss where split: "str_split sep cs = s # ss"
      using str_split_not_Nil [of sep cs] by (cases "str_split sep cs") auto
    with Cons False show ?thesis by simp
  qed
qed

lemma chunk_loop_concat:
  "chunk_loop m ss chunks cur = (chunks', cur') \<Longrightarrow>
   concat chunks' @ cur' = concat chunks @ cur @ concat (map (\<lambda>s. s @ ''.'') ss)"
proof (induction ss arbitrary: chunks cur)
  case Nil
  then show ?case by simp
next
  case (Cons s ss)
  show ?case
  proof (cases "int (length cur) + int (length s) < m")
    case True
    with Cons.prems have "chunk_loop m ss chunks (cur @ s @ ''.'') = (chunks', cur')"
      by simp
    from Cons.IH [OF this] show ?thesis by simp
  next
    case False
    with Cons.prems have "chunk_loop m ss (chunks @ [cur]) (s @ ''.'') = (chunks', cur')"
      by simp
    from Cons.IH [OF this] show ?thesis by simp
  qed
qed

lemma concat_chunk_text: "concat (chunk_text tx m) = tx @ ''.''"
proof -
  obtain chunks cur where run: "chunk_loop m (str_split (CHR ''.'') tx) [] [] = (chunks, cur)"
    by (cases "chunk_loop m (str_split (CHR ''.'') tx) [] []") auto
  from chunk_loop_concat [OF run]
  have "concat chunks @ cur = tx @ ''.''"
    by (simp add: str_split_join)
  moreover have "concat (chunk_text tx m) = concat chunks @ cur"
    by (simp add: chunk_text_def run)
  ultimately show ?thesis by simp
qed

text \<open>
  Claim C7 (Scenario B). The spec expects \<^verbatim>\<open>chunk_text("AAAAAAAAAA. B.", 10)\<close> to be
  the two chunks \<^verbatim>\<open>"AAAAAAAAAA."\<close> and \<^verbatim>\<open>" B."\<close>. The code returns three chunks:
  the first sentence has length 10, which is not below the bound, so the still empty
  buffer is flushed as an empty first chunk; and the empty piece that \<^verbatim>\<open>split\<close> returns
  after the final delimiter is appended with a delimiter of its own, so the last chunk
  ends in two dots.
\<close>

theorem chunk_text_scenario_B:
  "chunk_text ''AAAAAAAAAA. B.'' 10 = ['''', ''AAAAAAAAAA.'', '' B..'']"
  by (simp add: chunk_text_def)

text \<open>
  Claim C8 (empty input). The spec expects the empty text to give no chunk. In the code
  \<^verbatim>\<open>"".split(".")\<close> is the one-element list holding the empty string, the loop appends
  a delimiter to it, and the final guard \<^verbatim>\<open>if current_chunk:\<close> sees a non-empty
  buffer: the result is the single chunk \<^verbatim>\<open>"."\<close> for a positive bound, and an empty
  chunk followed by \<^verbatim>\<open>"."\<close> otherwise.
\<close>

theorem chunk_text_empty_input:
  "chunk_text '''' m = (if 0 < m then [''.''] else ['''', ''.''])"
  by (simp add: chunk_text_def)

text \<open>
  Claim C9 (round trip). For every text and every bound, the chunks concatenated in
  order, with every delimiter character \<^verbatim>\<open>'.'\<close> dropped, are the text with every
  delimiter character dropped: the same characters in the same order.
\<close>

theorem chunk_text_round_trip:
  "filter (\<lambda>c. c \<noteq> CHR ''.'') (concat (chunk_text tx m)) = filter (\<lambda>c. c \<noteq> CHR ''.'') tx"
  by (simp add: concat_chunk_text)

section \<open>Properties of the pipeline\<close>

subsection \<open>The loop and the documents of the job\<close>

lemma doc_after_prefix:
  "doc_after e chunks m = Some x \<Longrightarrow> n \<le> m \<Longrightarrow> \<exists>y. doc_after e chunks n = Some y"
proof (induction m arbitrary: x)
  case 0
  then show ?case by simp
next
  case (Suc m)
  show ?case
  proof (cases "n = Suc m")
    case True
    with Suc.prems show ?thesis by simp
  next
    case False
    with Suc.prems have le: "n \<le> m" by simp
    from Suc.prems(1) obtain z where "doc_after e chunks m = Some z"
      by (auto split: option.splits)
    from Suc.IH [OF this le] show ?thesis .
  qed
qed

lemma doc_after_bound: "doc_after e chunks n = Some d \<Longrightarrow> n \<le> length chunks"
  by (cases n) (auto split: option.splits if_splits)

lemma doc_after_step:
  "doc_after e chunks (Suc n) = Some d' \<Longrightarrow> doc_after e chunks n = Some d \<Longrightarrow>
   generate_content e (prompt_for (int n) d (chunks ! n)) = Inr d'"
  by (auto split: option.splits if_splits sum.splits)

lemma stepping_acc:
  "stepping e url chunks idx rest d fs evs =
   (stepping e url chunks idx rest d fs [])
     \<lparr>run_events := evs @ run_events (stepping e url chunks idx rest d fs [])\<rparr>"
proof (induction rest arbitrary: idx d fs evs)
  case Nil
  show ?case by simp
next
  case (Cons c rest)
  show ?case
  proof (cases "generate_content e (prompt_for idx d c)")
    case (Inl msg)
    then show ?thesis by simp
  next
    case (Inr response)
    show ?thesis
      unfolding stepping.simps Inr sum.case
      by (subst Cons.IH, subst (2 3) Cons.IH) simp
  qed
qed

lemma stepping_events_acc:
  "run_events (stepping e url chunks idx rest d fs evs) =
   evs @ run_events (stepping e url chunks idx rest d fs [])"
  by (subst stepping_acc) simp

lemma stepping_files_acc:
  "run_files (stepping e url chunks idx rest d fs evs) =
   run_files (stepping e url chunks idx rest d fs [])"
  by (subst stepping_acc) simp

lemma stepping_completed:
  "doc_after e chunks (length chunks) = Some dn \<Longrightarrow> doc_after e chunks n = Some d \<Longrightarrow>
   returned (stepping e url chunks (int n) (drop n chunks) d fs evs) = dn \<and>
   run_end (stepping e url chunks (int n) (drop n chunks) d fs evs) = Completed \<and>
   run_files (stepping e url chunks (int n) (drop n chunks) d fs evs) =
     (if n = length chunks then fs
      else fs\<lparr>progress_json :=
                Some (JsonDict (checkpoint url chunks dn (int (length chunks))))\<rparr>)"
proof (induction "length chunks - n" arbitrary: n d fs evs)
  case 0
  from doc_after_bound [OF "0.prems"(2)] "0.hyps" have "n = length chunks" by simp
  with "0.prems" show ?case by simp
next
  case (Suc k)
  then have lt: "n < length chunks" by simp
  then have dr: "drop n chunks = chunks ! n # drop (Suc n) chunks"
    by (simp add: Cons_nth_drop_Suc)
  from doc_after_prefix [OF Suc.prems(1), of "Suc n"] lt
  obtain d' where next_doc: "doc_after e chunks (Suc n) = Some d'" by auto
  from doc_after_step [OF next_doc Suc.prems(2)]
  have gen: "generate_content e (prompt_for (int n) d (chunks ! n)) = Inr d'" .
  have k: "k = length chunks - Suc n" using Suc.hyps(2) by simp
  have idx: "int n + 1 = int (Suc n)" by simp
  note IH = Suc.hyps(1) [OF k Suc.prems(1) next_doc]
  have last_idx: "Suc n = length chunks \<Longrightarrow> int (length chunks) = 1 + int n" by simp
  show ?case
    unfolding dr stepping.simps gen sum.case idx
    using IH lt by (auto simp: not_less last_idx)
qed


lemma stepping_failed:
  "doc_after e chunks i = Some di \<Longrightarrow> i < length chunks \<Longrightarrow>
   generate_content e (prompt_for (int i) di (chunks ! i)) = Inl msg \<Longrightarrow>
   n \<le> i \<Longrightarrow> doc_after e chunks n = Some d \<Longrightarrow>
   returned (stepping e url chunks (int n) (drop n chunks) d fs evs) = di \<and>
   run_end (stepping e url chunks (int n) (drop n chunks) d fs evs) = PartiallyFailed msg \<and>
   run_files (stepping e url chunks (int n) (drop n chunks) d fs evs) =
     (if n = i then fs
      else fs\<lparr>progress_json := Some (JsonDict (checkpoint url chunks di (int i)))\<rparr>) \<and>
   run_events (stepping e url chunks (int n) (drop n chunks) d fs evs) \<noteq> [] \<and>
   last (run_events (stepping e url chunks (int n) (drop n chunks) d fs evs)) =
     GenerateContent (int i) (prompt_for (int i) di (chunks ! i))
       (if n = i then progress_json fs
        else Some (JsonDict (checkpoint url chunks di (int i))))"
proof (induction "i - n" arbitrary: n d fs evs)
  case 0
  then have eq: "n = i" by simp
  with "0.prems" have d: "d = di" by simp
  from "0.prems"(2) have dr: "drop i chunks = chunks ! i # drop (Suc i) chunks"
    by (simp add: Cons_nth_drop_Suc)
  show ?case
    unfolding eq d dr stepping.simps "0.prems"(3) sum.case by simp
next
  case (Suc k)
  then have lt: "n < i" by simp
  with Suc.prems(2) have len: "n < length chunks" by simp
  then have dr: "drop n chunks = chunks ! n # drop (Suc n) chunks"
    by (simp add: Cons_nth_drop_Suc)
  from doc_after_prefix [OF Suc.prems(1), of "Suc n"] lt
  obtain d' where next_doc: "doc_after e chunks (Suc n) = Some d'" by auto
  from doc_after_step [OF next_doc Suc.prems(5)]
  have gen: "generate_content e (prompt_for (int n) d (chunks ! n)) = Inr d'" .
  have k: "k = i - Suc n" using Suc.hyps(2) by simp
  have le: "Suc n \<le> i" using lt by simp
  have idx: "int n + 1 = int (Suc n)" by simp
  have same: "Suc n = i \<Longrightarrow> d' = di" using next_doc Suc.prems(1) by simp
  note IH = Suc.hyps(1) [OF k Suc.prems(1) Suc.prems(2) Suc.prems(3) le next_doc]
  show ?case
    unfolding dr stepping.simps gen sum.case idx
    using IH lt same by auto
qed

lemma stepping_ordered:
  "n \<le> length chunks \<Longrightarrow>
   ordered_from url chunks n d (progress_json fs)
     (run_events (stepping e url chunks (int n) (drop n chunks) d fs []))"
proof (induction "length chunks - n" arbitrary: n d fs)
  case 0
  then have "drop n chunks = []" by simp
  then show ?case by simp
next
  case (Suc m)
  then have lt: "n < length chunks" by simp
  then have dr: "drop n chunks = chunks ! n # drop (Suc n) chunks"
    by (simp add: Cons_nth_drop_Suc)
  show ?case
  proof (cases "generate_content e (prompt_for (int n) d (chunks ! n))")
    case (Inl msg)
    with lt show ?thesis by (simp add: dr step_call_def)
  next
    case (Inr response)
    have m: "m = length chunks - Suc n" using Suc.hyps(2) by simp
    have le: "Suc n \<le> length chunks" using lt by simp
    have idx: "int n + 1 = int (Suc n)" by simp
    have stored: "p_notes (checkpoint url chunks response (int (Suc n))) = Some response"
      by (simp add: checkpoint_def)
    from Suc.hyps(1) [OF m le, of response
        "fs\<lparr>progress_json := Some (JsonDict (checkpoint url chunks response (int (Suc n))))\<rparr>"]
    show ?thesis
      unfolding dr stepping.simps Inr sum.case idx
      using lt stored
      by (simp add: stepping_events_acc [of _ _ _ _ _ _ _ "[_, _]"] step_call_def idx
          del: of_nat_Suc)
  qed
qed

lemma stepping_gen_indices:
  "gen_indices (run_events (stepping e url chunks idx rest d fs [])) =
   map (\<lambda>j. idx + int j)
     [0..<length (gen_indices (run_events (stepping e url chunks idx rest d fs [])))]"
proof (induction rest arbitrary: idx d fs)
  case Nil
  show ?case by simp
next
  case (Cons c rest)
  show ?case
  proof (cases "generate_content e (prompt_for idx d c)")
    case (Inl msg)
    then show ?thesis by simp
  next
    case (Inr response)
    let ?E = "run_events (stepping e url chunks (idx + 1) rest response
        (fs\<lparr>progress_json := Some (JsonDict (checkpoint url chunks response (idx + 1)))\<rparr>) [])"
    have "gen_indices ?E = map (\<lambda>j. idx + 1 + int j) [0..<length (gen_indices ?E)]"
      by (rule Cons.IH)
    moreover have "(\<lambda>j. idx + 1 + int j) = (\<lambda>j. idx + int (Suc j))"
      by (simp add: fun_eq_iff)
    ultimately have "gen_indices ?E = map (\<lambda>j. idx + int (Suc j)) [0..<length (gen_indices ?E)]"
      by simp
    then show ?thesis
      by (simp add: Inr stepping_events_acc [of _ _ _ _ _ _ _ "[_, _]"] map_upt_Suc
          del: upt_Suc)
  qed
qed

lemma stepping_completed_indices:
  "n \<le> length chunks \<Longrightarrow>
   run_end (stepping e url chunks (int n) (drop n chunks) d fs []) = Completed \<Longrightarrow>
   gen_indices (run_events (stepping e url chunks (int n) (drop n chunks) d fs [])) =
   map int [n..<length chunks]"
proof (induction "length chunks - n" arbitrary: n d fs)
  case 0
  then have "drop n chunks = []" by simp
  with "0.hyps" show ?case by simp
next
  case (Suc m)
  then have lt: "n < length chunks" by simp
  then have dr: "drop n chunks = chunks ! n # drop (Suc n) chunks"
    by (simp add: Cons_nth_drop_Suc)
  show ?case
  proof (cases "generate_content e (prompt_for (int n) d (chunks ! n))")
    case (Inl msg)
    with Suc.prems(2) show ?thesis by (simp add: dr)
  next
    case (Inr response)
    have m: "m = length chunks - Suc n" using Suc.hyps(2) by simp
    have le: "Suc n \<le> length chunks" using lt by simp
    have idx: "int n + 1 = int (Suc n)" by simp
    let ?fs = "fs\<lparr>progress_json := Some (JsonDict (checkpoint url chunks response (int (Suc n))))\<rparr>"
    from Suc.prems(2)
    have "run_end (stepping e url chunks (int (Suc n)) (drop (Suc n) chunks) response ?fs []) =
          Completed"
      unfolding dr stepping.simps Inr sum.case idx
      by (subst (asm) stepping_acc) simp
    from Suc.hyps(1) [OF m le this]
    show ?thesis
      unfolding dr stepping.simps Inr sum.case idx
      using lt
      by (simp add: stepping_events_acc [of _ _ _ _ _ _ _ "[_, _]"] upt_conv_Cons
          del: of_nat_Suc)
  qed
qed

lemma stepping_saved_ok:
  "doc_after e chunks n = Some d \<Longrightarrow> c \<in> set (saved (run_events
     (stepping e url chunks (int n) (drop n chunks) d fs []))) \<Longrightarrow>
   checkpoint_ok e c \<and> p_transcript_chunks c = Some chunks \<and> p_video_url c = Some url"
proof (induction "length chunks - n" arbitrary: n d fs)
  case 0
  from doc_after_bound [OF "0.prems"(1)] "0.hyps" have "drop n chunks = []" by simp
  with "0.prems" show ?case by simp
next
  case (Suc k)
  then have lt: "n < length chunks" by simp
  then have dr: "drop n chunks = chunks ! n # drop (Suc n) chunks"
    by (simp add: Cons_nth_drop_Suc)
  show ?case
  proof (cases "generate_content e (prompt_for (int n) d (chunks ! n))")
    case (Inl msg)
    with Suc.prems(2) show ?thesis by (simp add: dr)
  next
    case (Inr d')
    with Suc.prems(1) lt have next_doc: "doc_after e chunks (Suc n) = Some d'" by simp
    have k: "k = length chunks - Suc n" using Suc.hyps(2) by simp
    have idx: "int n + 1 = int (Suc n)" by simp
    have suc: "nat (1 + int n) = Suc n" by simp
    have first: "checkpoint_ok e (checkpoint url chunks d' (int (Suc n)))"
      using next_doc lt by (simp add: checkpoint_ok_def checkpoint_def suc del: doc_after.simps)
    from Suc.prems(2)
    have "c = checkpoint url chunks d' (int (Suc n)) \<or>
          c \<in> set (saved (run_events
            (stepping e url chunks (int (Suc n)) (drop (Suc n) chunks) d'
               (fs\<lparr>progress_json := Some (JsonDict (checkpoint url chunks d' (int (Suc n))))\<rparr>)
               [])))"
      unfolding dr stepping.simps Inr sum.case idx
      by (simp add: stepping_events_acc [of _ _ _ _ _ _ _ "[_, _]"])
    then show ?thesis
    proof
      assume "c = checkpoint url chunks d' (int (Suc n))"
      with first show ?thesis by (simp add: checkpoint_def)
    next
      assume "c \<in> set (saved (run_events
            (stepping e url chunks (int (Suc n)) (drop (Suc n) chunks) d'
               (fs\<lparr>progress_json := Some (JsonDict (checkpoint url chunks d' (int (Suc n))))\<rparr>)
               [])))"
      from Suc.hyps(1) [OF k next_doc this] show ?thesis .
    qed
  qed
qed

lemma stepping_files:
  "progress_json (run_files (stepping e url chunks idx rest d fs [])) =
     (if saved (run_events (stepping e url chunks idx rest d fs [])) = [] then progress_json fs
      else Some (JsonDict (last (saved (run_events (stepping e url chunks idx rest d fs [])))))) \<and>
   academic_notes (run_files (stepping e url chunks idx rest d fs [])) = academic_notes fs"
proof (induction rest arbitrary: idx d fs)
  case Nil
  show ?case by simp
next
  case (Cons c rest)
  show ?case
  proof (cases "generate_content e (prompt_for idx d c)")
    case (Inl msg)
    then show ?thesis by simp
  next
    case (Inr response)
    show ?thesis
      using Cons.IH [of "idx + 1" response
          "fs\<lparr>progress_json := Some (JsonDict (checkpoint url chunks response (idx + 1)))\<rparr>"]
      by (simp add: Inr stepping_events_acc [of _ _ _ _ _ _ _ "[_, _]"]
            stepping_files_acc [of _ _ _ _ _ _ _ "[_, _]"])
  qed
qed

subsection \<open>The example runs, step by step\<close>

lemma length_PROMPT_START: "length PROMPT_START = 837"
  by (simp add: PROMPT_START_def)

lemma length_PROMPT_CONTINUE_head: "length PROMPT_CONTINUE_head = 1020"
  by (simp add: PROMPT_CONTINUE_head_def)

lemma length_prompt_for:
  "length (prompt_for i d c) =
     (if i = 0 then 837 + length c else 1047 + length d + length c)"
  by (simp add: prompt_for_def PROMPT_CONTINUE_format_def length_PROMPT_START
      length_PROMPT_CONTINUE_head PROMPT_CONTINUE_mid_def PROMPT_CONTINUE_tail_def)

lemma doc_after_next:
  "doc_after e chunks n = Some d \<Longrightarrow> n < length chunks \<Longrightarrow>
   generate_content e (prompt_for (int n) d (chunks ! n)) = Inr d' \<Longrightarrow>
   doc_after e chunks (Suc n) = Some d'"
  by simp

lemma replicate_numeral: "replicate (numeral k) c = c # replicate (numeral k - 1) c"
  by (simp add: numeral_eq_Suc)

lemma stub_ok_prompt:
  "stub_ok (prompt_for i d c) =
     Inr (replicate ((if i = 0 then 837 + length c else 1047 + length d + length c) mod 4 + 1)
            (CHR ''n''))"
  by (simp add: stub_ok_def length_prompt_for del: replicate_Suc)

lemma example_doc_1: "doc_after (example_env stub_ok) five_chunks (Suc 0) = Some ''n''"
  by (simp add: example_env_def five_chunks_def stub_ok_prompt)

lemma example_doc_2: "doc_after (example_env stub_ok) five_chunks (Suc (Suc 0)) = Some ''nnnn''"
  by (rule doc_after_next [OF example_doc_1])
    (simp_all add: example_env_def five_chunks_def stub_ok_prompt replicate_numeral)

lemma example_doc_3: "doc_after (example_env stub_ok) five_chunks 3 = Some ''nnn''"
  unfolding numeral_3_eq_3
  by (rule doc_after_next [OF example_doc_2])
    (simp_all add: example_env_def five_chunks_def stub_ok_prompt replicate_numeral)

lemma example_doc_4: "doc_after (example_env stub_ok) five_chunks (Suc 3) = Some ''nn''"
  by (rule doc_after_next [OF example_doc_3])
    (simp_all add: example_env_def five_chunks_def stub_ok_prompt replicate_numeral)

lemma example_doc_5: "doc_after (example_env stub_ok) five_chunks (length five_chunks) = Some ''n''"
proof -
  have "doc_after (example_env stub_ok) five_chunks (Suc (Suc 3)) = Some ''n''"
    by (rule doc_after_next [OF example_doc_4])
      (simp_all add: example_env_def five_chunks_def stub_ok_prompt replicate_numeral)
  moreover have "length five_chunks = Suc (Suc 3)"
    by (simp add: five_chunks_def)
  ultimately show ?thesis by simp
qed


lemma stub_quota_prompt:
  "stub_quota (prompt_for i d c) =
     (if (if i = 0 then 837 + length c else 1047 + length d + length c) mod 4 = 2
      then Inl ''quota exceeded''
      else Inr (replicate
                 ((if i = 0 then 837 + length c else 1047 + length d + length c) mod 4 + 1)
                 (CHR ''n'')))"
  by (simp add: stub_quota_def stub_ok_prompt length_prompt_for del: replicate_Suc)

lemma quota_doc_1: "doc_after (example_env stub_quota) five_chunks (Suc 0) = Some ''n''"
  by (simp add: example_env_def five_chunks_def stub_quota_prompt)

lemma quota_doc_2: "doc_after (example_env stub_quota) five_chunks 2 = Some ''nnnn''"
  unfolding numeral_2_eq_2
  by (rule doc_after_next [OF quota_doc_1])
    (simp_all add: example_env_def five_chunks_def stub_quota_prompt replicate_numeral)

lemma quota_fails_2:
  "generate_content (example_env stub_quota) (prompt_for 2 ''nnnn'' (five_chunks ! 2)) =
   Inl ''quota exceeded''"
  by (simp add: example_env_def five_chunks_def stub_quota_prompt)

subsection \<open>From \<^verbatim>\<open>generate_notes\<close> to its loop\<close>

lemma example_key: "get_gemini_api_key (example_env g) = Inr ''key''"
  by (simp add: get_gemini_api_key_def example_env_def)

lemma initial_state_checkpoint:
  "initial_state e url (Some (checkpoint u chunks d k)) = Inr (chunks, d, k)"
  by (simp add: initial_state_def dict_nonempty_def checkpoint_def resume_state_def)

lemma initial_state_fresh:
  "get_transcript e url = Inr t \<Longrightarrow>
   initial_state e url None =
     Inr (chunk_text (preprocess_transcript t) default_max_chunk_size, [], 0)"
  by (simp add: initial_state_def fresh_state_def)

lemma generate_notes_stepping:
  "get_gemini_api_key e = Inr api_key \<Longrightarrow> initial_state e url rd = Inr (chunks, d, k) \<Longrightarrow>
   generate_notes e url rd fs = stepping e url chunks k (slice_from chunks k) d fs []"
  by (simp add: generate_notes_def)

lemma slice_from_nat: "slice_from xs (int k) = drop k xs"
  by (simp add: slice_from_def)

lemma run_events_no_key:
  "get_gemini_api_key e = Inl msg \<Longrightarrow> generate_notes e url rd fs = outer_error msg fs"
  by (simp add: generate_notes_def)

lemma run_events_no_state:
  "get_gemini_api_key e = Inr api_key \<Longrightarrow> initial_state e url rd = Inl msg \<Longrightarrow>
   generate_notes e url rd fs = outer_error msg fs"
  by (simp add: generate_notes_def)

subsection \<open>Resumption, partial failure, the checkpoint invariant and the order of steps\<close>

text \<open>
  Claim C1 (resumption correctness). Let the stub answer every step of the job on the
  chunk sequence \<open>chunks\<close>, so that the job has a final document \<open>dn\<close>, and let
  \<open>dk\<close> be the document after the chunks \<open>[0, k)\<close> for some \<open>k \<le> length chunks\<close>. A run
  that is given the checkpoint saved after these \<open>k\<close> chunks (the sequence, \<open>dk\<close> and
  the index \<open>k\<close>) returns \<open>dn\<close>, and so does the run of the whole job from index 0 with
  the same stub: the run started with the empty document at index 0 on the same sequence,
  and the run without resume data whenever the transcript it fetches is chunked into this
  sequence.
\<close>

theorem resumption_correct:
  assumes key: "get_gemini_api_key e = Inr api_key"
    and k: "k \<le> length chunks"
    and saved_doc: "doc_after e chunks k = Some dk"
    and all_steps: "doc_after e chunks (length chunks) = Some dn"
  shows "returned (generate_notes e url (Some (checkpoint url chunks dk (int k))) fs) = dn \<and>
         returned (generate_notes e url (Some (checkpoint url chunks [] 0)) fs0) = dn \<and>
         (get_transcript e url = Inr t \<and>
          chunk_text (preprocess_transcript t) default_max_chunk_size = chunks \<longrightarrow>
          returned (generate_notes e url None fs0) = dn)"
proof -
  have resumed: "returned (generate_notes e url (Some (checkpoint url chunks dk (int k))) fs) = dn"
    using stepping_completed [OF all_steps saved_doc, of url fs "[]"]
    by (simp add: generate_notes_stepping [OF key initial_state_checkpoint] slice_from_nat)
  have start: "doc_after e chunks 0 = Some []" by simp
  have from_0: "returned (stepping e url chunks 0 (slice_from chunks 0) [] fs0 []) = dn"
    using stepping_completed [OF all_steps start, of url fs0 "[]"]
    by (simp add: slice_from_def)
  have whole: "returned (generate_notes e url (Some (checkpoint url chunks [] 0)) fs0) = dn"
    using from_0 by (simp add: generate_notes_stepping [OF key initial_state_checkpoint])
  have fresh: "returned (generate_notes e url None fs0) = dn"
    if "get_transcript e url = Inr t"
      and "chunk_text (preprocess_transcript t) default_max_chunk_size = chunks"
    using from_0 initial_state_fresh [OF that(1)] that(2)
    by (simp add: generate_notes_stepping [OF key])
  from resumed whole fresh show ?thesis by blast
qed

text \<open>
  What \<^verbatim>\<open>generate_notes\<close> itself does when a step fails. A run starts at index \<open>k\<close> with
  the document \<open>d\<close> of the chunks before \<open>k\<close> (a run without resume data starts at 0 with
  the empty document). If the steps for the chunks from \<open>k\<close> up to \<open>i - 1\<close> succeed and
  the step for chunk \<open>i\<close> raises, then \<^verbatim>\<open>generate_notes\<close> returns in the handler of the
  loop with the document \<open>di\<close> after chunk \<open>i - 1\<close>; the last thing it did is the call
  that failed; and at its return \<^verbatim>\<open>progress.json\<close> holds the checkpoint with the
  document \<open>di\<close> and next index \<open>i\<close> whenever the run has written a checkpoint or was
  started from the checkpoint in the file.
\<close>

lemma generate_notes_partial_failure:
  assumes key: "get_gemini_api_key e = Inr api_key"
    and start: "initial_state e url rd = Inr (chunks, d, int k)"
    and start_doc: "doc_after e chunks k = Some d"
    and ki: "k \<le> i"
    and i: "i < length chunks"
    and before: "doc_after e chunks i = Some di"
    and fails: "generate_content e (prompt_for (int i) di (chunks ! i)) = Inl msg"
  shows "returned (generate_notes e url rd fs) = di \<and>
         run_end (generate_notes e url rd fs) = PartiallyFailed msg \<and>
         run_files (generate_notes e url rd fs) =
           (if i = k then fs
            else fs\<lparr>progress_json := Some (JsonDict (checkpoint url chunks di (int i)))\<rparr>) \<and>
         run_events (generate_notes e url rd fs) \<noteq> [] \<and>
         last (run_events (generate_notes e url rd fs)) =
           GenerateContent (int i) (prompt_for (int i) di (chunks ! i))
             (if i = k then progress_json fs
              else Some (JsonDict (checkpoint url chunks di (int i)))) \<and>
         (k < i \<or> progress_json fs = Some (JsonDict (checkpoint url chunks d (int k))) \<longrightarrow>
          progress_json (run_files (generate_notes e url rd fs)) =
            Some (JsonDict (checkpoint url chunks di (int i))))"
proof -
  have run: "generate_notes e url rd fs = stepping e url chunks (int k) (drop k chunks) d fs []"
    by (simp add: generate_notes_stepping [OF key start] slice_from_nat)
  have same: "i = k \<Longrightarrow> d = di" using start_doc before by simp
  from stepping_failed [OF before i fails ki start_doc, of url fs "[]"] same
  show ?thesis unfolding run by auto
qed

text \<open>
  Claim C3 (checkpoint invariant). In a run without resume data, and in a run whose resume
  data satisfy the invariant, every record written to \<^verbatim>\<open>progress.json\<close> satisfies it: the
  next index is between 0 and the number of stored chunks, and the stored notes are the
  document of the chunks before that index.
\<close>

theorem checkpoint_invariant:
  assumes start: "rd = None \<or> (\<exists>p. rd = Some p \<and> checkpoint_ok e p)"
    and written: "c \<in> set (saved (run_events (generate_notes e url rd fs)))"
  shows "checkpoint_ok e c"
proof (cases "get_gemini_api_key e")
  case (Inl msg)
  with written show ?thesis by (simp add: run_events_no_key outer_error_def)
next
  case key: (Inr api_key)
  show ?thesis
  proof (cases "initial_state e url rd")
    case (Inl msg)
    with written key show ?thesis by (simp add: run_events_no_state outer_error_def)
  next
    case (Inr st)
    obtain chunks d k where st: "st = (chunks, d, k)" by (cases st) auto
    have valid: "0 \<le> k \<and> doc_after e chunks (nat k) = Some d"
    proof -
      from start show ?thesis
      proof
        assume "rd = None"
        with Inr st show ?thesis
          by (auto simp: initial_state_def fresh_state_def split: sum.splits)
      next
        assume "\<exists>p. rd = Some p \<and> checkpoint_ok e p"
        then obtain p where p: "rd = Some p" "checkpoint_ok e p" by blast
        with Inr st show ?thesis
          by (auto simp: initial_state_def resume_state_def checkpoint_ok_def dict_nonempty_def
              split: option.splits if_splits)
      qed
    qed
    then have k: "k = int (nat k)" by simp
    have run: "generate_notes e url rd fs =
               stepping e url chunks (int (nat k)) (drop (nat k) chunks) d fs []"
      using generate_notes_stepping [OF key, of url rd chunks d k fs] Inr st valid
      by (simp add: slice_from_def)
    from stepping_saved_ok [of e chunks "nat k" d c url fs] valid written
    show ?thesis unfolding run by simp
  qed
qed

text \<open>
  Claim C4 (ordering). A run starts at a resume index \<open>k\<close> between 0 and the number of
  chunks (a run without resume data starts at 0), with the notes \<open>d\<close>. Its events are in
  the order that \<open>ordered_from\<close> describes: the Generation Step for the chunk at position
  \<open>k\<close>, labelled \<open>k\<close>, with the prompt built from that chunk and \<open>d\<close>; the write of the
  checkpoint with next index \<open>k + 1\<close>; the Generation Step for the chunk at position
  \<open>k + 1\<close>, called while \<^verbatim>\<open>progress.json\<close> holds that checkpoint; and so on. The indices
  of the calls are \<open>k, k + 1, k + 2, ...\<close> with none left out and none repeated, up to
  the last chunk when the run ends after the loop. When the run returns,
  \<^verbatim>\<open>progress.json\<close> holds the last checkpoint written, or what it held before when none
  was written.
\<close>

theorem generation_order:
  assumes start: "initial_state e url rd = Inr (chunks, d, int k)"
    and k: "k \<le> length chunks"
  shows "ordered_from url chunks k d (progress_json fs)
           (run_events (generate_notes e url rd fs)) \<and>
         gen_indices (run_events (generate_notes e url rd fs)) =
           map (\<lambda>j. int k + int j)
             [0..<length (gen_indices (run_events (generate_notes e url rd fs)))] \<and>
         (run_end (generate_notes e url rd fs) = Completed \<longrightarrow>
          gen_indices (run_events (generate_notes e url rd fs)) = map int [k..<length chunks]) \<and>
         progress_json (run_files (generate_notes e url rd fs)) =
           (if saved (run_events (generate_notes e url rd fs)) = [] then progress_json fs
            else Some (JsonDict (last (saved (run_events (generate_notes e url rd fs))))))"
proof (cases "get_gemini_api_key e")
  case (Inl msg)
  then show ?thesis by (simp add: run_events_no_key outer_error_def)
next
  case (Inr api_key)
  have run: "generate_notes e url rd fs = stepping e url chunks (int k) (drop k chunks) d fs []"
    by (simp add: generate_notes_stepping [OF Inr start] slice_from_nat)
  show ?thesis
    unfolding run
    using stepping_ordered [OF k, of url d fs e]
      stepping_gen_indices [of e url chunks "int k" "drop k chunks" d fs]
      stepping_completed_indices [OF k, of e url d fs]
      stepping_files [of e url chunks "int k" "drop k chunks" d fs]
    by simp
qed

lemma example_doc_2': "doc_after (example_env stub_ok) five_chunks 2 = Some ''nnnn''"
  using example_doc_2 by (simp add: numeral_2_eq_2)

lemma example_chunks:
  "chunk_text (preprocess_transcript ''aB. c'') default_max_chunk_size = [''a. B. c.'']"
  by (simp add: chunk_text_def default_max_chunk_size_def ascii_lower_def ascii_upper_def)

lemma short_doc_1: "doc_after (example_env stub_ok) [''a. B. c.''] (Suc 0) = Some ''nn''"
  by (simp add: example_env_def stub_ok_prompt replicate_numeral)

text \<open>
  Claim C1 at examples: the five example chunks, resumed at index 2, and the one chunk of
  the example transcript, resumed at index 1 and run without resume data.
\<close>

theorem resumption_correct_witness:
  "get_gemini_api_key (example_env stub_ok) = Inr ''key'' \<and>
   2 \<le> length five_chunks \<and>
   doc_after (example_env stub_ok) five_chunks 2 = Some ''nnnn'' \<and>
   doc_after (example_env stub_ok) five_chunks (length five_chunks) = Some ''n'' \<and>
   returned (generate_notes (example_env stub_ok) ''u''
     (Some (checkpoint ''u'' five_chunks ''nnnn'' 2)) no_files) = ''n'' \<and>
   returned (generate_notes (example_env stub_ok) ''u''
     (Some (checkpoint ''u'' five_chunks [] 0)) no_files) = ''n'' \<and>
   get_transcript (example_env stub_ok) ''u'' = Inr ''aB. c'' \<and>
   chunk_text (preprocess_transcript ''aB. c'') default_max_chunk_size = [''a. B. c.''] \<and>
   doc_after (example_env stub_ok) [''a. B. c.''] 1 = Some ''nn'' \<and>
   returned (generate_notes (example_env stub_ok) ''u''
     (Some (checkpoint ''u'' [''a. B. c.''] ''nn'' 1)) no_files) = ''nn'' \<and>
   returned (generate_notes (example_env stub_ok) ''u'' None no_files) = ''nn''"
proof -
  have k: "2 \<le> length five_chunks" by (simp add: five_chunks_def)
  have fetch: "get_transcript (example_env stub_ok) ''u'' = Inr ''aB. c''"
    by (simp add: example_env_def)
  have k1: "1 \<le> length [''a. B. c.'']" by simp
  have d1: "doc_after (example_env stub_ok) [''a. B. c.''] 1 = Some ''nn''"
    using short_doc_1 by simp
  have dn: "doc_after (example_env stub_ok) [''a. B. c.''] (length [''a. B. c.'']) = Some ''nn''"
    using short_doc_1 by simp
  from resumption_correct [OF example_key k example_doc_2' example_doc_5,
      of "''u''" no_files no_files "''aB. c''"]
    resumption_correct [OF example_key k1 d1 dn, of "''u''" no_files no_files "''aB. c''"]
  show ?thesis using k fetch d1 example_chunks example_doc_2' example_doc_5 example_key
    by simp
qed

lemma quota_run_events:
  "run_events (generate_notes (example_env stub_quota) ''u''
     (Some (checkpoint ''u'' five_chunks ''n'' 1)) fs) =
   [GenerateContent 1 (prompt_for 1 ''n'' ''cd.'') (progress_json fs),
    SaveProgress (checkpoint ''u'' five_chunks ''nnnn'' 2),
    GenerateContent 2 (prompt_for 2 ''nnnn'' ''ef.'')
      (Some (JsonDict (checkpoint ''u'' five_chunks ''nnnn'' 2)))]"
  by (subst generate_notes_stepping [OF example_key initial_state_checkpoint])
    (simp add: slice_from_def five_chunks_def example_env_def stub_quota_prompt replicate_numeral)

text \<open>
  Claim C3 at an example: a run resumed from the checkpoint with next index 1, in which
  the step for chunk 1 succeeds and the step for chunk 2 fails. The record it writes has
  next index 2.
\<close>

theorem checkpoint_invariant_witness:
  "checkpoint_ok (example_env stub_quota) (checkpoint ''u'' five_chunks ''n'' 1) \<and>
   checkpoint ''u'' five_chunks ''nnnn'' 2 \<in> set (saved (run_events
     (generate_notes (example_env stub_quota) ''u''
        (Some (checkpoint ''u'' five_chunks ''n'' 1)) no_files))) \<and>
   checkpoint_ok (example_env stub_quota) (checkpoint ''u'' five_chunks ''nnnn'' 2)"
proof -
  have ok: "checkpoint_ok (example_env stub_quota) (checkpoint ''u'' five_chunks ''n'' 1)"
    using quota_doc_1 by (simp add: checkpoint_ok_def checkpoint_def five_chunks_def)
  then have start: "Some (checkpoint ''u'' five_chunks ''n'' 1) = None \<or>
      (\<exists>p. Some (checkpoint ''u'' five_chunks ''n'' 1) = Some p \<and>
           checkpoint_ok (example_env stub_quota) p)"
    by simp
  have written: "checkpoint ''u'' five_chunks ''nnnn'' 2 \<in> set (saved (run_events
     (generate_notes (example_env stub_quota) ''u''
        (Some (checkpoint ''u'' five_chunks ''n'' 1)) no_files)))"
    by (simp add: quota_run_events)
  from checkpoint_invariant [OF start written] ok written show ?thesis by simp
qed

lemma ok_run_from_4:
  "generate_notes (example_env stub_ok) ''u'' (Some (checkpoint ''u'' five_chunks ''nn'' 4))
     no_files =
   \<lparr>returned = ''n'', run_end = Completed,
    run_files = \<lparr>progress_json = Some (JsonDict (checkpoint ''u'' five_chunks ''n'' 5)),
                 academic_notes = None\<rparr>,
    run_events = [GenerateContent 4 (prompt_for 4 ''nn'' ''ij.'') None,
                  SaveProgress (checkpoint ''u'' five_chunks ''n'' 5)]\<rparr>"
  by (subst generate_notes_stepping [OF example_key initial_state_checkpoint])
    (simp add: slice_from_def five_chunks_def example_env_def stub_ok_prompt replicate_numeral
      no_files_def)

text \<open>
  Claim C4 at two runs. The run of the example for claim C3, started from the files that
  hold the checkpoint with next index 1: the model is called for the chunks at the
  positions 1 and 2, the second time while \<^verbatim>\<open>progress.json\<close> holds the checkpoint with
  next index 2. And a run resumed at index 4 in which the last step succeeds.
\<close>

theorem generation_order_witness:
  "initial_state (example_env stub_quota) ''u'' (Some (checkpoint ''u'' five_chunks ''n'' 1)) =
     Inr (five_chunks, ''n'', 1) \<and>
   (1 :: nat) \<le> length five_chunks \<and>
   ordered_from ''u'' five_chunks 1 ''n'' (progress_json checkpoint_1_files)
     (run_events (generate_notes (example_env stub_quota) ''u''
        (Some (checkpoint ''u'' five_chunks ''n'' 1)) checkpoint_1_files)) \<and>
   run_events (generate_notes (example_env stub_quota) ''u''
     (Some (checkpoint ''u'' five_chunks ''n'' 1)) checkpoint_1_files) =
     [GenerateContent 1 (prompt_for 1 ''n'' (five_chunks ! 1))
        (Some (JsonDict (checkpoint ''u'' five_chunks ''n'' 1))),
      SaveProgress (checkpoint ''u'' five_chunks ''nnnn'' 2),
      GenerateContent 2 (prompt_for 2 ''nnnn'' (five_chunks ! 2))
        (Some (JsonDict (checkpoint ''u'' five_chunks ''nnnn'' 2)))] \<and>
   gen_indices (run_events (generate_notes (example_env stub_quota) ''u''
     (Some (checkpoint ''u'' five_chunks ''n'' 1)) checkpoint_1_files)) = [1, 2] \<and>
   progress_json (run_files (generate_notes (example_env stub_quota) ''u''
     (Some (checkpoint ''u'' five_chunks ''n'' 1)) checkpoint_1_files)) =
     Some (JsonDict (checkpoint ''u'' five_chunks ''nnnn'' 2)) \<and>
   initial_state (example_env stub_ok) ''u'' (Some (checkpoint ''u'' five_chunks ''nn'' 4)) =
     Inr (five_chunks, ''nn'', 4) \<and>
   (4 :: nat) \<le> length five_chunks \<and>
   run_end (generate_notes (example_env stub_ok) ''u''
     (Some (checkpoint ''u'' five_chunks ''nn'' 4)) no_files) = Completed \<and>
   gen_indices (run_events (generate_notes (example_env stub_ok) ''u''
     (Some (checkpoint ''u'' five_chunks ''nn'' 4)) no_files)) = map int [4..<length five_chunks]"
proof -
  have start1: "initial_state (example_env stub_quota) ''u''
      (Some (checkpoint ''u'' five_chunks ''n'' 1)) = Inr (five_chunks, ''n'', int 1)"
    by (simp add: initial_state_checkpoint)
  have k1: "(1 :: nat) \<le> length five_chunks" by (simp add: five_chunks_def)
  have start4: "initial_state (example_env stub_ok) ''u''
      (Some (checkpoint ''u'' five_chunks ''nn'' 4)) = Inr (five_chunks, ''nn'', int 4)"
    by (simp add: initial_state_checkpoint)
  have k4: "(4 :: nat) \<le> length five_chunks" by (simp add: five_chunks_def)
  have completed: "run_end (generate_notes (example_env stub_ok) ''u''
      (Some (checkpoint ''u'' five_chunks ''nn'' 4)) no_files) = Completed"
    by (simp add: ok_run_from_4)
  have events: "run_events (generate_notes (example_env stub_quota) ''u''
      (Some (checkpoint ''u'' five_chunks ''n'' 1)) checkpoint_1_files) =
     [GenerateContent 1 (prompt_for 1 ''n'' (five_chunks ! 1))
        (Some (JsonDict (checkpoint ''u'' five_chunks ''n'' 1))),
      SaveProgress (checkpoint ''u'' five_chunks ''nnnn'' 2),
      GenerateContent 2 (prompt_for 2 ''nnnn'' (five_chunks ! 2))
        (Some (JsonDict (checkpoint ''u'' five_chunks ''nnnn'' 2)))]"
    unfolding quota_run_events by (simp add: checkpoint_1_files_def five_chunks_def)
  note a = generation_order [OF start1 k1, of checkpoint_1_files]
  note b = generation_order [OF start4 k4, of no_files]
  have a1: "ordered_from ''u'' five_chunks 1 ''n'' (progress_json checkpoint_1_files)
     (run_events (generate_notes (example_env stub_quota) ''u''
        (Some (checkpoint ''u'' five_chunks ''n'' 1)) checkpoint_1_files))"
    using a by blast
  have a2: "progress_json (run_files (generate_notes (example_env stub_quota) ''u''
     (Some (checkpoint ''u'' five_chunks ''n'' 1)) checkpoint_1_files)) =
     Some (JsonDict (checkpoint ''u'' five_chunks ''nnnn'' 2))"
    using a unfolding events by simp
  have b1: "gen_indices (run_events (generate_notes (example_env stub_ok) ''u''
     (Some (checkpoint ''u'' five_chunks ''nn'' 4)) no_files)) = map int [4..<length five_chunks]"
    using b completed by blast
  have a3: "gen_indices (run_events (generate_notes (example_env stub_quota) ''u''
     (Some (checkpoint ''u'' five_chunks ''n'' 1)) checkpoint_1_files)) = [1, 2]"
    unfolding events by simp
  from start1 k1 a1 events a3 a2 start4 k4 completed b1 show ?thesis by simp
qed

section \<open>Properties of the command line\<close>


lemma main_finish:
  "startup video_url stdin fs = Inr (url, rd, fs') \<Longrightarrow>
   main video_url stdin e fs = finish (generate_notes e url rd fs')"
  by (simp add: main_def)

lemma lower_r: "lower ''r'' = ''r''"
  by (simp add: lower_def ascii_upper_def)


text \<open>
  What \<^verbatim>\<open>main\<close> does after a run that failed part-way: the document of the last success
  is returned without the error marker (unless it holds the text itself), so \<^verbatim>\<open>main\<close>
  saves it as the notes and removes \<^verbatim>\<open>progress.json\<close>.
\<close>

lemma main_after_partial_failure:
  assumes key: "get_gemini_api_key e = Inr api_key"
    and started: "startup video_url stdin fs = Inr (url, rd, fs')"
    and start: "initial_state e url rd = Inr (chunks, d, int k)"
    and start_doc: "doc_after e chunks k = Some d"
    and ki: "k \<le> i"
    and i: "i < length chunks"
    and before: "doc_after e chunks i = Some di"
    and fails: "generate_content e (prompt_for (int i) di (chunks ! i)) = Inl msg"
    and no_marker: "\<not> str_contains ''An error occurred'' di"
  shows "outcome (main video_url stdin e fs) = NotesSaved \<and>
         main_files (main video_url stdin e fs) =
           fs'\<lparr>academic_notes := Some di, progress_json := None\<rparr>"
proof -
  have run: "generate_notes e url rd fs' =
             stepping e url chunks (int k) (drop k chunks) d fs' []"
    by (simp add: generate_notes_stepping [OF key start] slice_from_nat)
  from stepping_failed [OF before i fails ki start_doc, of url fs' "[]"] no_marker
  show ?thesis
    unfolding main_finish [OF started] run by (simp add: finish_def)
qed

text \<open>
  Claim C2 (partial failure). The claim holds up to the return of \<^verbatim>\<open>generate_notes\<close>
  (lemma \<open>generate_notes_partial_failure\<close>), which prints that it is saving the progress.
  It does not hold for the run as a whole: \<^verbatim>\<open>main\<close> finds no error marker in the
  document it gets back, writes it to the output file as the finished notes and removes
  \<^verbatim>\<open>progress.json\<close>. Here the job of five chunks is resumed from the checkpoint with next
  index 1; the step for chunk 1 succeeds and the step for chunk 2 fails. When
  \<^verbatim>\<open>generate_notes\<close> returns, \<^verbatim>\<open>progress.json\<close> holds next index 2; when \<^verbatim>\<open>main\<close> ends,
  the file is gone.
\<close>

theorem partial_failure_checkpoint_removed:
  "startup None [''r''] checkpoint_1_files =
     Inr (''u'', Some (checkpoint ''u'' five_chunks ''n'' 1), checkpoint_1_files) \<and>
   doc_after (example_env stub_quota) five_chunks 2 = Some ''nnnn'' \<and>
   generate_content (example_env stub_quota) (prompt_for 2 ''nnnn'' (five_chunks ! 2)) =
     Inl ''quota exceeded'' \<and>
   returned (generate_notes (example_env stub_quota) ''u''
     (Some (checkpoint ''u'' five_chunks ''n'' 1)) checkpoint_1_files) = ''nnnn'' \<and>
   run_end (generate_notes (example_env stub_quota) ''u''
     (Some (checkpoint ''u'' five_chunks ''n'' 1)) checkpoint_1_files) =
     PartiallyFailed ''quota exceeded'' \<and>
   progress_json (run_files (generate_notes (example_env stub_quota) ''u''
     (Some (checkpoint ''u'' five_chunks ''n'' 1)) checkpoint_1_files)) =
     Some (JsonDict (checkpoint ''u'' five_chunks ''nnnn'' 2)) \<and>
   main_run (main None [''r''] (example_env stub_quota) checkpoint_1_files) =
     Some (generate_notes (example_env stub_quota) ''u''
       (Some (checkpoint ''u'' five_chunks ''n'' 1)) checkpoint_1_files) \<and>
   outcome (main None [''r''] (example_env stub_quota) checkpoint_1_files) = NotesSaved \<and>
   main_files (main None [''r''] (example_env stub_quota) checkpoint_1_files) =
     \<lparr>progress_json = None, academic_notes = Some ''nnnn''\<rparr>"
proof -
  have started: "startup None [''r''] checkpoint_1_files =
      Inr (''u'', Some (checkpoint ''u'' five_chunks ''n'' 1), checkpoint_1_files)"
    by (simp add: startup_def checkpoint_1_files_def resume_or_restart_def ask_url_def
        no_url_def lower_r checkpoint_def)
  have start: "initial_state (example_env stub_quota) ''u''
      (Some (checkpoint ''u'' five_chunks ''n'' 1)) = Inr (five_chunks, ''n'', int 1)"
    by (simp add: initial_state_checkpoint)
  have d1: "doc_after (example_env stub_quota) five_chunks 1 = Some ''n''"
    using quota_doc_1 by simp
  have ki: "(1 :: nat) \<le> 2" by simp
  have i: "2 < length five_chunks" by (simp add: five_chunks_def)
  have fails: "generate_content (example_env stub_quota)
      (prompt_for (int 2) ''nnnn'' (five_chunks ! 2)) = Inl ''quota exceeded''"
    using quota_fails_2 by simp
  have no_marker: "\<not> str_contains ''An error occurred'' ''nnnn''" by simp
  note at_return = generate_notes_partial_failure
    [OF example_key start d1 ki i quota_doc_2 fails, of checkpoint_1_files]
  note at_end = main_after_partial_failure
    [OF example_key started start d1 ki i quota_doc_2 fails no_marker]
  have ran: "main_run (main None [''r''] (example_env stub_quota) checkpoint_1_files) =
      Some (generate_notes (example_env stub_quota) ''u''
        (Some (checkpoint ''u'' five_chunks ''n'' 1)) checkpoint_1_files)"
    unfolding main_finish [OF started] by (simp add: finish_def)
  from at_return at_end ran started quota_doc_2 fails show ?thesis
    by (simp add: checkpoint_1_files_def)
qed

lemma startup_fresh: "startup (Some ''u'') [] no_files = Inr (''u'', None, no_files)"
  by (simp add: startup_def no_files_def ask_url_def no_url_def)

lemma marker_doc_1:
  "doc_after (example_env stub_marker) [''a. B. c.''] (length [''a. B. c.'']) =
   Some ''An error occurred''"
  by (simp add: example_env_def stub_marker_def)

lemma marker_run:
  "generate_notes (example_env stub_marker) ''u'' None no_files =
   \<lparr>returned = ''An error occurred'', run_end = Completed,
    run_files = \<lparr>progress_json =
                   Some (JsonDict (checkpoint ''u'' [''a. B. c.''] ''An error occurred'' 1)),
                 academic_notes = None\<rparr>,
    run_events = [GenerateContent 0 (prompt_for 0 [] ''a. B. c.'') None,
                  SaveProgress (checkpoint ''u'' [''a. B. c.''] ''An error occurred'' 1)]\<rparr>"
proof -
  have fetch: "get_transcript (example_env stub_marker) ''u'' = Inr ''aB. c''"
    by (simp add: example_env_def)
  show ?thesis
    unfolding generate_notes_stepping [OF example_key initial_state_fresh [OF fetch]]
      example_chunks
    by (simp add: slice_from_def example_env_def stub_marker_def no_files_def)
qed

text \<open>
  Claim C5 (completion), as stated, fails: \<^verbatim>\<open>main\<close> tells success from failure by looking
  for the text \<^verbatim>\<open>An error occurred\<close> in the returned notes. Here the only step of the job
  succeeds and the run ends after the loop, but the document holds that text: \<^verbatim>\<open>main\<close>
  prints it, writes no output file and leaves the checkpoint in place.
\<close>

theorem completion_counterexample:
  "doc_after (example_env stub_marker) [''a. B. c.''] (length [''a. B. c.'']) =
     Some ''An error occurred'' \<and>
   run_end (generate_notes (example_env stub_marker) ''u'' None no_files) = Completed \<and>
   returned (generate_notes (example_env stub_marker) ''u'' None no_files) =
     ''An error occurred'' \<and>
   main_run (main (Some ''u'') [] (example_env stub_marker) no_files) =
     Some (generate_notes (example_env stub_marker) ''u'' None no_files) \<and>
   outcome (main (Some ''u'') [] (example_env stub_marker) no_files) = ErrorPrinted \<and>
   progress_json (main_files (main (Some ''u'') [] (example_env stub_marker) no_files)) =
     Some (JsonDict (checkpoint ''u'' [''a. B. c.''] ''An error occurred'' 1)) \<and>
   academic_notes (main_files (main (Some ''u'') [] (example_env stub_marker) no_files)) = None"
  using marker_doc_1
  unfolding main_finish [OF startup_fresh] marker_run
  by (simp add: finish_def del: doc_after.simps)

text \<open>
  Claim C5, amended. \<^verbatim>\<open>main\<close> calls \<^verbatim>\<open>generate_notes\<close> for a run that starts at index
  \<open>k\<close> with the document of the chunks before \<open>k\<close>. If every step up to the last chunk
  succeeds and the final document \<open>dn\<close> does not hold the text \<^verbatim>\<open>An error occurred\<close>,
  then the run ends after the loop and returns \<open>dn\<close>, \<^verbatim>\<open>main\<close> writes \<open>dn\<close> to the output
  file, and \<^verbatim>\<open>progress.json\<close> is absent afterwards.
\<close>

theorem completion:
  assumes key: "get_gemini_api_key e = Inr api_key"
    and started: "startup video_url stdin fs = Inr (url, rd, fs')"
    and start: "initial_state e url rd = Inr (chunks, d, int k)"
    and start_doc: "doc_after e chunks k = Some d"
    and all_steps: "doc_after e chunks (length chunks) = Some dn"
    and no_marker: "\<not> str_contains ''An error occurred'' dn"
  shows "run_end (generate_notes e url rd fs') = Completed \<and>
         returned (generate_notes e url rd fs') = dn \<and>
         main_run (main video_url stdin e fs) = Some (generate_notes e url rd fs') \<and>
         outcome (main video_url stdin e fs) = NotesSaved \<and>
         main_files (main video_url stdin e fs) =
           fs'\<lparr>academic_notes := Some dn, progress_json := None\<rparr>"
proof -
  have run: "generate_notes e url rd fs' =
             stepping e url chunks (int k) (drop k chunks) d fs' []"
    by (simp add: generate_notes_stepping [OF key start] slice_from_nat)
  from stepping_completed [OF all_steps start_doc, of url fs' "[]"] no_marker
  show ?thesis
    unfolding main_finish [OF started] run by (simp add: finish_def)
qed


lemma startup_resume:
  "startup None [''r''] scenario_C_files =
   Inr (''u'', Some (checkpoint ''u'' five_chunks ''nnnn'' 2), scenario_C_files)"
  by (simp add: startup_def scenario_C_files_def resume_or_restart_def ask_url_def no_url_def
      lower_r checkpoint_def)

lemma no_marker_n: "\<not> str_contains ''An error occurred'' ''n''"
  by simp

text \<open>
  Claim C5, amended, at Scenario D of the spec: resumed from the checkpoint of Scenario C,
  with every remaining step succeeding.
\<close>

theorem completion_witness:
  "get_gemini_api_key (example_env stub_ok) = Inr ''key'' \<and>
   startup None [''r''] scenario_C_files =
     Inr (''u'', Some (checkpoint ''u'' five_chunks ''nnnn'' 2), scenario_C_files) \<and>
   initial_state (example_env stub_ok) ''u'' (Some (checkpoint ''u'' five_chunks ''nnnn'' 2)) =
     Inr (five_chunks, ''nnnn'', 2) \<and>
   doc_after (example_env stub_ok) five_chunks 2 = Some ''nnnn'' \<and>
   doc_after (example_env stub_ok) five_chunks (length five_chunks) = Some ''n'' \<and>
   \<not> str_contains ''An error occurred'' ''n'' \<and>
   run_end (generate_notes (example_env stub_ok) ''u''
     (Some (checkpoint ''u'' five_chunks ''nnnn'' 2)) scenario_C_files) = Completed \<and>
   outcome (main None [''r''] (example_env stub_ok) scenario_C_files) = NotesSaved \<and>
   main_files (main None [''r''] (example_env stub_ok) scenario_C_files) =
     \<lparr>progress_json = None, academic_notes = Some ''n''\<rparr>"
proof -
  have start: "initial_state (example_env stub_ok) ''u''
      (Some (checkpoint ''u'' five_chunks ''nnnn'' 2)) = Inr (five_chunks, ''nnnn'', int 2)"
    by (simp add: initial_state_checkpoint)
  from completion [OF example_key startup_resume start example_doc_2' example_doc_5 no_marker_n]
  show ?thesis
    using example_key startup_resume start example_doc_2' example_doc_5 no_marker_n
    by (simp add: scenario_C_files_def)
qed




text \<open>
  Claim C10 (errors in the returned text). When the key is missing, or when the state of
  the run cannot be set up (the transcript cannot be fetched, or a key of the resume data
  is missing), \<^verbatim>\<open>generate_notes\<close> returns \<^verbatim>\<open>An error occurred: \<close> followed by the text of
  the exception. \<^verbatim>\<open>main\<close> looks only at whether the returned text holds
  \<^verbatim>\<open>An error occurred\<close>: if it does, the text is printed and the files are left as
  \<^verbatim>\<open>generate_notes\<close> left them, otherwise the notes are saved. So a run in which every
  step succeeds and whose final document holds that text is treated as a failure: no
  output file is written, and the checkpoint stays in \<^verbatim>\<open>progress.json\<close>.
\<close>

theorem in_band_errors:
  "(get_gemini_api_key e = Inl msg \<longrightarrow>
      returned (generate_notes e url rd fs) = ''An error occurred: '' @ msg \<and>
      run_end (generate_notes e url rd fs) = Errored msg) \<and>
   (get_gemini_api_key e = Inr api_key \<and> initial_state e url rd = Inl msg \<longrightarrow>
      returned (generate_notes e url rd fs) = ''An error occurred: '' @ msg \<and>
      run_end (generate_notes e url rd fs) = Errored msg) \<and>
   (startup video_url stdin fs = Inr (url, rd, fs') \<and>
    str_contains ''An error occurred'' (returned (generate_notes e url rd fs')) \<longrightarrow>
      main video_url stdin e fs =
        \<lparr>outcome = ErrorPrinted, main_files = run_files (generate_notes e url rd fs'),
         main_run = Some (generate_notes e url rd fs')\<rparr>) \<and>
   (startup video_url stdin fs = Inr (url, rd, fs') \<and>
    \<not> str_contains ''An error occurred'' (returned (generate_notes e url rd fs')) \<longrightarrow>
      outcome (main video_url stdin e fs) = NotesSaved) \<and>
   (startup video_url stdin fs = Inr (url, rd, fs') \<and> get_gemini_api_key e = Inr api_key \<and>
    initial_state e url rd = Inr (chunks, d, int k) \<and> doc_after e chunks k = Some d \<and>
    doc_after e chunks (length chunks) = Some dn \<and> str_contains ''An error occurred'' dn \<longrightarrow>
      run_end (generate_notes e url rd fs') = Completed \<and>
      outcome (main video_url stdin e fs) = ErrorPrinted \<and>
      academic_notes (main_files (main video_url stdin e fs)) = academic_notes fs' \<and>
      progress_json (main_files (main video_url stdin e fs)) =
        (if k = length chunks then progress_json fs'
         else Some (JsonDict (checkpoint url chunks dn (int (length chunks))))))"
proof (intro conjI impI)
  assume "get_gemini_api_key e = Inl msg"
  then have "generate_notes e url rd fs = outer_error msg fs" by (rule run_events_no_key)
  then show "returned (generate_notes e url rd fs) = ''An error occurred: '' @ msg"
    and "run_end (generate_notes e url rd fs) = Errored msg"
    by (simp_all add: outer_error_def)
next
  assume "get_gemini_api_key e = Inr api_key \<and> initial_state e url rd = Inl msg"
  then have "generate_notes e url rd fs = outer_error msg fs" by (simp add: run_events_no_state)
  then show "returned (generate_notes e url rd fs) = ''An error occurred: '' @ msg"
    and "run_end (generate_notes e url rd fs) = Errored msg"
    by (simp_all add: outer_error_def)
next
  assume "startup video_url stdin fs = Inr (url, rd, fs') \<and>
    str_contains ''An error occurred'' (returned (generate_notes e url rd fs'))"
  then show "main video_url stdin e fs =
      \<lparr>outcome = ErrorPrinted, main_files = run_files (generate_notes e url rd fs'),
       main_run = Some (generate_notes e url rd fs')\<rparr>"
    by (simp add: main_def finish_def)
next
  assume "startup video_url stdin fs = Inr (url, rd, fs') \<and>
    \<not> str_contains ''An error occurred'' (returned (generate_notes e url rd fs'))"
  then show "outcome (main video_url stdin e fs) = NotesSaved"
    by (simp add: main_def finish_def)
next
  assume a: "startup video_url stdin fs = Inr (url, rd, fs') \<and>
    get_gemini_api_key e = Inr api_key \<and>
    initial_state e url rd = Inr (chunks, d, int k) \<and> doc_after e chunks k = Some d \<and>
    doc_after e chunks (length chunks) = Some dn \<and> str_contains ''An error occurred'' dn"
  then have run: "generate_notes e url rd fs' =
                  stepping e url chunks (int k) (drop k chunks) d fs' []"
    by (simp add: generate_notes_stepping [of e api_key url rd chunks d "int k"] slice_from_nat)
  from a have started: "startup video_url stdin fs = Inr (url, rd, fs')" by simp
  from a stepping_completed [of e chunks dn k d url fs' "[]"]
  have completed: "returned (stepping e url chunks (int k) (drop k chunks) d fs' []) = dn"
    "run_end (stepping e url chunks (int k) (drop k chunks) d fs' []) = Completed"
    "run_files (stepping e url chunks (int k) (drop k chunks) d fs' []) =
       (if k = length chunks then fs'
        else fs'\<lparr>progress_json :=
                   Some (JsonDict (checkpoint url chunks dn (int (length chunks))))\<rparr>)"
    by simp_all
  from a have marker: "str_contains ''An error occurred'' dn" by simp
  show "run_end (generate_notes e url rd fs') = Completed"
    and "outcome (main video_url stdin e fs) = ErrorPrinted"
    and "academic_notes (main_files (main video_url stdin e fs)) = academic_notes fs'"
    and "progress_json (main_files (main video_url stdin e fs)) =
        (if k = length chunks then progress_json fs'
         else Some (JsonDict (checkpoint url chunks dn (int (length chunks)))))"
    unfolding main_finish [OF started] run using completed marker
    by (simp_all add: finish_def)
qed


lemma ok_fresh_returned:
  "returned (generate_notes (example_env stub_ok) ''u'' None no_files) = ''nn''"
proof -
  have fetch: "get_transcript (example_env stub_ok) ''u'' = Inr ''aB. c''"
    by (simp add: example_env_def)
  show ?thesis
    unfolding generate_notes_stepping [OF example_key initial_state_fresh [OF fetch]]
      example_chunks
    by (simp add: slice_from_def example_env_def stub_ok_prompt replicate_numeral)
qed

lemma marker_start:
  "initial_state (example_env stub_marker) ''u'' None = Inr ([''a. B. c.''], [], int 0)"
proof -
  have fetch: "get_transcript (example_env stub_marker) ''u'' = Inr ''aB. c''"
    by (simp add: example_env_def)
  show ?thesis
    unfolding initial_state_fresh [OF fetch] example_chunks by simp
qed

text \<open>
  Claim C10 at examples: a missing key, a transcript that cannot be fetched, a successful
  run whose document holds the text, and a successful run whose document does not.
\<close>

theorem in_band_errors_witness:
  "get_gemini_api_key ((example_env stub_ok)\<lparr>GEMINI_API_KEY := None\<rparr>) =
     Inl ''GEMINI_API_KEY environment variable not set.'' \<and>
   returned (generate_notes ((example_env stub_ok)\<lparr>GEMINI_API_KEY := None\<rparr>) ''u'' None
     no_files) = ''An error occurred: GEMINI_API_KEY environment variable not set.'' \<and>
   get_gemini_api_key
     ((example_env stub_ok)\<lparr>get_transcript := \<lambda>u. Inl ''No transcript found''\<rparr>) =
     Inr ''key'' \<and>
   initial_state ((example_env stub_ok)\<lparr>get_transcript := \<lambda>u. Inl ''No transcript found''\<rparr>)
     ''u'' None = Inl ''No transcript found'' \<and>
   returned (generate_notes
     ((example_env stub_ok)\<lparr>get_transcript := \<lambda>u. Inl ''No transcript found''\<rparr>) ''u'' None
     no_files) = ''An error occurred: No transcript found'' \<and>
   startup (Some ''u'') [] no_files = Inr (''u'', None, no_files) \<and>
   str_contains ''An error occurred''
     (returned (generate_notes (example_env stub_marker) ''u'' None no_files)) \<and>
   main (Some ''u'') [] (example_env stub_marker) no_files =
     \<lparr>outcome = ErrorPrinted,
      main_files = run_files (generate_notes (example_env stub_marker) ''u'' None no_files),
      main_run = Some (generate_notes (example_env stub_marker) ''u'' None no_files)\<rparr> \<and>
   \<not> str_contains ''An error occurred''
     (returned (generate_notes (example_env stub_ok) ''u'' None no_files)) \<and>
   outcome (main (Some ''u'') [] (example_env stub_ok) no_files) = NotesSaved \<and>
   initial_state (example_env stub_marker) ''u'' None = Inr ([''a. B. c.''], [], 0) \<and>
   doc_after (example_env stub_marker) [''a. B. c.''] 0 = Some [] \<and>
   doc_after (example_env stub_marker) [''a. B. c.''] (length [''a. B. c.'']) =
     Some ''An error occurred'' \<and>
   str_contains ''An error occurred'' ''An error occurred'' \<and>
   run_end (generate_notes (example_env stub_marker) ''u'' None no_files) = Completed \<and>
   outcome (main (Some ''u'') [] (example_env stub_marker) no_files) = ErrorPrinted \<and>
   academic_notes (main_files (main (Some ''u'') [] (example_env stub_marker) no_files)) =
     None \<and>
   progress_json (main_files (main (Some ''u'') [] (example_env stub_marker) no_files)) =
     Some (JsonDict (checkpoint ''u'' [''a. B. c.''] ''An error occurred'' 1))"
proof -
  have no_key: "get_gemini_api_key ((example_env stub_ok)\<lparr>GEMINI_API_KEY := None\<rparr>) =
      Inl ''GEMINI_API_KEY environment variable not set.''"
    by (simp add: get_gemini_api_key_def example_env_def)
  have key: "get_gemini_api_key
      ((example_env stub_ok)\<lparr>get_transcript := \<lambda>u. Inl ''No transcript found''\<rparr>) = Inr ''key''"
    by (simp add: get_gemini_api_key_def example_env_def)
  have no_transcript: "initial_state
      ((example_env stub_ok)\<lparr>get_transcript := \<lambda>u. Inl ''No transcript found''\<rparr>) ''u'' None =
      Inl ''No transcript found''"
    by (simp add: initial_state_def fresh_state_def)
  have marked: "str_contains ''An error occurred''
      (returned (generate_notes (example_env stub_marker) ''u'' None no_files))"
    unfolding marker_run by simp
  have unmarked: "\<not> str_contains ''An error occurred''
      (returned (generate_notes (example_env stub_ok) ''u'' None no_files))"
    unfolding ok_fresh_returned by simp
  have d0: "doc_after (example_env stub_marker) [''a. B. c.''] 0 = Some []" by simp
  have self: "str_contains ''An error occurred'' ''An error occurred''" by simp
  note a = in_band_errors [where e = "(example_env stub_ok)\<lparr>GEMINI_API_KEY := None\<rparr>"
      and msg = "''GEMINI_API_KEY environment variable not set.''" and url = "''u''"
      and rd = None and fs = no_files]
  note b = in_band_errors [where
      e = "(example_env stub_ok)\<lparr>get_transcript := \<lambda>u. Inl ''No transcript found''\<rparr>"
      and msg = "''No transcript found''" and url = "''u''" and rd = None and fs = no_files
      and api_key = "''key''"]
  note c = in_band_errors [where e = "example_env stub_marker" and video_url = "Some ''u''"
      and stdin = "[]" and fs = no_files and url = "''u''" and rd = None and fs' = no_files
      and api_key = "''key''" and chunks = "[''a. B. c.'']" and d = "[]" and k = 0
      and dn = "''An error occurred''"]
  note d = in_band_errors [where e = "example_env stub_ok" and video_url = "Some ''u''"
      and stdin = "[]" and fs = no_files and url = "''u''" and rd = None and fs' = no_files]
  have a': "returned (generate_notes ((example_env stub_ok)\<lparr>GEMINI_API_KEY := None\<rparr>) ''u''
      None no_files) = ''An error occurred: GEMINI_API_KEY environment variable not set.''"
    using a no_key by simp
  have b': "returned (generate_notes
      ((example_env stub_ok)\<lparr>get_transcript := \<lambda>u. Inl ''No transcript found''\<rparr>) ''u'' None
      no_files) = ''An error occurred: No transcript found''"
    using b key no_transcript by simp
  have c1: "main (Some ''u'') [] (example_env stub_marker) no_files =
     \<lparr>outcome = ErrorPrinted,
      main_files = run_files (generate_notes (example_env stub_marker) ''u'' None no_files),
      main_run = Some (generate_notes (example_env stub_marker) ''u'' None no_files)\<rparr>"
    using c startup_fresh marked by blast
  have d': "outcome (main (Some ''u'') [] (example_env stub_ok) no_files) = NotesSaved"
    using d startup_fresh unmarked by blast
  have c2: "run_end (generate_notes (example_env stub_marker) ''u'' None no_files) = Completed \<and>
      outcome (main (Some ''u'') [] (example_env stub_marker) no_files) = ErrorPrinted \<and>
      academic_notes (main_files (main (Some ''u'') [] (example_env stub_marker) no_files)) =
        academic_notes no_files \<and>
      progress_json (main_files (main (Some ''u'') [] (example_env stub_marker) no_files)) =
        (if (0 :: nat) = length [''a. B. c.''] then progress_json no_files
         else Some (JsonDict (checkpoint ''u'' [''a. B. c.''] ''An error occurred''
                      (int (length [''a. B. c.''])))))"
    using c startup_fresh example_key [of stub_marker] marker_start d0 marker_doc_1 self
    by blast
  from a' b' c1 c2 d' no_key key no_transcript marked unmarked startup_fresh marker_start d0
    marker_doc_1 self
  show ?thesis by (simp add: no_files_def del: doc_after.simps str_contains.simps)
qed

end
